theory Spec2Isabelle
  imports Complex_Main
begin

section \<open>Vendor comparison of the procurement tracker\<close>

text \<open>
  The development embeds \<^verbatim>\<open>compare_vendors\<close> of \<^verbatim>\<open>project.py\<close> together with the
  helpers it calls (\<^verbatim>\<open>get_vendor\<close>, \<^verbatim>\<open>load_data\<close>, \<^verbatim>\<open>console.print\<close>).
  Python numbers are modelled as exact rationals: every arithmetic operation of the
  scoring code (\<^verbatim>\<open>+\<close>, \<^verbatim>\<open>-\<close>, \<^verbatim>\<open>*\<close>, \<^verbatim>\<open>/\<close>, \<^verbatim>\<open>min\<close>, \<^verbatim>\<open>sum\<close>, comparison) is the exact
  one, and \<^verbatim>\<open>round(x, 1)\<close> is rounding to the nearest tenth with ties going to the even
  tenth. The binary representation error of floats is not part of the model.
\<close>

subsection \<open>Data model\<close>

text \<open>
  A review is the dictionary \<^verbatim>\<open>{"rating": .., "comment": .., "date": ..}\<close>. The scoring
  code reads it with \<^verbatim>\<open>review.get('rating', 0)\<close>, so the key may be missing.
\<close>

record review =
  rating :: "rat option"
  comment :: string
  date :: string

text \<open>
  Class \<^verbatim>\<open>Vendor\<close>. The attribute \<^verbatim>\<open>id\<close> is called \<open>vendor_id\<close> here. The entries of
  the vendors file are the dictionaries \<^verbatim>\<open>to_dict\<close> writes, with the same fields, and
  \<^verbatim>\<open>Vendor.from_dict\<close> copies every one of them.
\<close>

record vendor =
  vendor_id :: string
  name :: string
  contact_email :: string
  phone :: string
  address :: string
  price_rating :: rat
  delivery_time :: rat
  reviews :: "review list"
  created_at :: string
  updated_at :: string

subsection \<open>Rounding\<close>

text \<open>\<^verbatim>\<open>round(y)\<close>: the nearest integer, a tie going to the even neighbour.\<close>

definition round_half_even :: "rat \<Rightarrow> int" where
  "round_half_even y =
     (let f = \<lfloor>y\<rfloor>; d = y - of_int f
      in if d < 1 / 2 then f
         else if 1 / 2 < d then f + 1
         else if even f then f else f + 1)"

text \<open>\<^verbatim>\<open>round(x, 1)\<close>.\<close>

definition py_round1 :: "rat \<Rightarrow> rat" where
  "py_round1 x = of_int (round_half_even (x * 10)) / 10"

subsection \<open>The score of a table row (lines 260 to 274)\<close>

text \<open>\<^verbatim>\<open>review.get('rating', 0)\<close>\<close>

definition get_rating :: "review \<Rightarrow> rat" where
  "get_rating r = (case rating r of None \<Rightarrow> 0 | Some x \<Rightarrow> x)"

text \<open>
  \<^verbatim>\<open>avg_review = 0\<close>, and \<^verbatim>\<open>total / len(vendor.reviews)\<close> when \<^verbatim>\<open>vendor.reviews\<close> is
  not empty.
\<close>

definition avg_review :: "vendor \<Rightarrow> rat" where
  "avg_review v =
     (if reviews v \<noteq> []
      then sum_list (map get_rating (reviews v)) / of_nat (length (reviews v))
      else 0)"

definition price_factor :: "vendor \<Rightarrow> rat" where
  "price_factor v = price_rating v / 10 * (4 / 10)"

definition delivery_factor :: "vendor \<Rightarrow> rat" where
  "delivery_factor v = min (delivery_time v) 30 / 30 * (4 / 10)"

text \<open>\<^verbatim>\<open>(5 - avg_review) / 5 * 0.2 if avg_review > 0 else 0.1\<close>\<close>

definition review_factor :: "vendor \<Rightarrow> rat" where
  "review_factor v =
     (if 0 < avg_review v then (5 - avg_review v) / 5 * (2 / 10) else 1 / 10)"

text \<open>The value of \<^verbatim>\<open>overall_score\<close> before line 274 rounds it.\<close>

definition overall_score_raw :: "vendor \<Rightarrow> rat" where
  "overall_score_raw v =
     10 - ((price_factor v + delivery_factor v + review_factor v) * 10)"

definition overall_score :: "vendor \<Rightarrow> rat" where
  "overall_score v = py_round1 (overall_score_raw v)"

subsection \<open>The key of the recommendation (lines 287 to 291)\<close>

text \<open>
  The lambda passed to \<^verbatim>\<open>max\<close> writes the formula a second time. Its review term tests
  \<^verbatim>\<open>v.reviews\<close> twice and never the average, and the sum of the three factors is not
  multiplied by 10.
\<close>

definition key_review_factor :: "vendor \<Rightarrow> rat" where
  "key_review_factor v =
     (if reviews v \<noteq> []
      then (5 - (if reviews v \<noteq> []
                 then sum_list (map get_rating (reviews v)) / of_nat (length (reviews v))
                 else 0)) / 5 * (2 / 10)
      else 1 / 10)"

definition best_key :: "vendor \<Rightarrow> rat" where
  "best_key v =
     10 - ((price_rating v / 10 * (4 / 10))
           + (min (delivery_time v) 30 / 30 * (4 / 10))
           + key_review_factor v)"

text \<open>
  \<^verbatim>\<open>max(iterable, key=..)\<close> on a sequence with first element \<open>best\<close>: the scan keeps the
  element it holds unless the next key is strictly greater.
\<close>

fun py_max :: "('a \<Rightarrow> rat) \<Rightarrow> 'a \<Rightarrow> 'a list \<Rightarrow> 'a" where
  "py_max key best [] = best"
| "py_max key best (x # xs) = py_max key (if key best < key x then x else best) xs"

subsection \<open>The comparison\<close>

text \<open>
  A row of the table. The cells are kept as the values the code formats: the name, the
  price rating, the delivery time, the average review to one decimal or the text
  \<^verbatim>\<open>No reviews\<close>, and the rounded score.
\<close>

datatype avg_cell = No_reviews | Avg rat

record table_row =
  row_vendor :: string
  row_price_rating :: rat
  row_delivery_time :: rat
  row_avg_review :: avg_cell
  row_overall_score :: rat

definition add_row :: "vendor \<Rightarrow> table_row" where
  "add_row v =
     \<lparr>row_vendor = name v,
      row_price_rating = price_rating v,
      row_delivery_time = delivery_time v,
      row_avg_review = (if reviews v \<noteq> [] then Avg (py_round1 (avg_review v)) else No_reviews),
      row_overall_score = overall_score v\<rparr>"

text \<open>
  The early return of line 247 prints \<^verbatim>\<open>No valid vendors to compare.\<close> and produces
  neither table nor recommendation; it is the error value of the model.
\<close>

datatype error = No_valid_vendors

record comparison =
  rows :: "table_row list"
  recommended :: vendor

text \<open>Lines 247 to 291, on the vendors the first loop has resolved.\<close>

fun compare :: "vendor list \<Rightarrow> error + comparison" where
  "compare [] = Inl No_valid_vendors"
| "compare (v # vs) =
     Inr \<lparr>rows = map add_row (v # vs), recommended = py_max best_key v vs\<rparr>"

subsection \<open>The whole function, with the vendors file and the console\<close>

datatype event =
  Warning_not_found string
  | Error_no_valid_vendors
  | Print_table "table_row list"
  | Print_recommendation string

record system =
  vendors_file :: "vendor list"
  console :: "event list"

definition console_print :: "event \<Rightarrow> system \<Rightarrow> system" where
  "console_print e s = s\<lparr>console := console s @ [e]\<rparr>"

text \<open>\<^verbatim>\<open>load_data(VENDORS_FILE)\<close> reads the file and leaves it as it is.\<close>

definition load_data :: "system \<Rightarrow> vendor list" where
  "load_data s = vendors_file s"

fun find_vendor :: "vendor list \<Rightarrow> string \<Rightarrow> vendor option" where
  "find_vendor [] vid = None"
| "find_vendor (v # vs) vid = (if vendor_id v = vid then Some v else find_vendor vs vid)"

definition get_vendor :: "system \<Rightarrow> string \<Rightarrow> vendor option" where
  "get_vendor s vid = find_vendor (load_data s) vid"

text \<open>The loop of lines 240 to 245, with the list \<^verbatim>\<open>vendors\<close> it appends to.\<close>

fun resolve :: "string list \<Rightarrow> vendor list \<Rightarrow> system \<Rightarrow> vendor list \<times> system" where
  "resolve [] vendors s = (vendors, s)"
| "resolve (vid # vids) vendors s =
     (case get_vendor s vid of
        Some vendor \<Rightarrow> resolve vids (vendors @ [vendor]) s
      | None \<Rightarrow> resolve vids vendors (console_print (Warning_not_found vid) s))"

definition compare_vendors :: "string list \<Rightarrow> system \<Rightarrow> system" where
  "compare_vendors vendor_ids s =
     (case resolve vendor_ids [] s of
        (vendors, s1) \<Rightarrow>
          (case compare vendors of
             Inl e \<Rightarrow> console_print Error_no_valid_vendors s1
           | Inr c \<Rightarrow>
               console_print (Print_recommendation (name (recommended c)))
                 (console_print (Print_table (rows c)) s1)))"

subsection \<open>The vendors of the examples\<close>

text \<open>
  \<^verbatim>\<open>main\<close> creates the first two when the vendors file does not exist. Identifiers and
  time stamps, which \<^verbatim>\<open>uuid4\<close> and the clock choose, are fixed strings here.
\<close>

definition acme :: vendor where
  "acme =
     \<lparr>vendor_id = ''id-acme'', name = ''Acme Supplies'', contact_email = ''contact@acme.com'',
      phone = ''555-123-4567'', address = ''123 Main St, Anytown'',
      price_rating = 65 / 10, delivery_time = 35 / 10, reviews = [],
      created_at = ''t0'', updated_at = ''t0''\<rparr>"

definition megacorp :: vendor where
  "megacorp =
     \<lparr>vendor_id = ''id-megacorp'', name = ''MegaCorp'', contact_email = ''sales@megacorp.com'',
      phone = ''555-987-6543'', address = ''456 Business Ave, Commerce City'',
      price_rating = 42 / 10, delivery_time = 5, reviews = [],
      created_at = ''t1'', updated_at = ''t1''\<rparr>"

definition five_stars :: review where
  "five_stars = \<lparr>rating = Some 5, comment = ''good'', date = ''t2''\<rparr>"

definition acme_reviewed :: vendor where
  "acme_reviewed = acme\<lparr>reviews := [five_stars, five_stars]\<rparr>"

text \<open>Further reviews: one whose dictionary has no \<^verbatim>\<open>rating\<close> key, and ratings 1, 2 and 3.\<close>

definition unrated :: review where
  "unrated = \<lparr>rating = None, comment = ''late'', date = ''t3''\<rparr>"

definition one_star :: review where
  "one_star = \<lparr>rating = Some 1, comment = ''poor'', date = ''t4''\<rparr>"

definition two_stars :: review where
  "two_stars = \<lparr>rating = Some 2, comment = ''fair'', date = ''t5''\<rparr>"

definition three_stars :: review where
  "three_stars = \<lparr>rating = Some 3, comment = ''fine'', date = ''t6''\<rparr>"


definition dearer :: vendor where
  "dearer = acme\<lparr>vendor_id := ''id-dearer'', name := ''Dearer Supplies'', price_rating := 7\<rparr>"

section \<open>Properties\<close>

subsection \<open>Rounding is monotone and keeps bounds that are tenths\<close>

lemma round_half_even_ge_floor: "\<lfloor>y\<rfloor> \<le> round_half_even y"
  by (simp add: round_half_even_def Let_def)

lemma round_half_even_le_floor: "round_half_even y \<le> \<lfloor>y\<rfloor> + 1"
  by (simp add: round_half_even_def Let_def)

lemma round_half_even_of_int: "round_half_even (of_int n) = n"
  by (simp add: round_half_even_def Let_def)

lemma round_half_even_lower: "of_int n \<le> y \<Longrightarrow> n \<le> round_half_even y"
proof -
  assume "of_int n \<le> y"
  then have "n \<le> \<lfloor>y\<rfloor>" by (simp add: le_floor_iff)
  then show ?thesis using round_half_even_ge_floor [of y] by linarith
qed

lemma round_half_even_upper: "y \<le> of_int n \<Longrightarrow> round_half_even y \<le> n"
proof (cases "y = of_int n")
  case True
  then show ?thesis by (simp add: round_half_even_of_int)
next
  case False
  assume "y \<le> of_int n"
  with False have "y < of_int n" by simp
  then have "\<lfloor>y\<rfloor> < n" by (simp add: floor_less_iff)
  then show ?thesis using round_half_even_le_floor [of y] by linarith
qed

lemma round_half_even_mono: "x \<le> y \<Longrightarrow> round_half_even x \<le> round_half_even y"
proof -
  assume xy: "x \<le> y"
  then have fl: "\<lfloor>x\<rfloor> \<le> \<lfloor>y\<rfloor>" by (rule floor_mono)
  show ?thesis
  proof (cases "\<lfloor>x\<rfloor> = \<lfloor>y\<rfloor>")
    case True
    with xy have "x - of_int \<lfloor>x\<rfloor> \<le> y - of_int \<lfloor>y\<rfloor>" by simp
    with True show ?thesis
      by (auto simp: round_half_even_def Let_def)
  next
    case False
    with fl have "\<lfloor>x\<rfloor> + 1 \<le> \<lfloor>y\<rfloor>" by simp
    then show ?thesis
      using round_half_even_le_floor [of x] round_half_even_ge_floor [of y] by linarith
  qed
qed

lemma py_round1_mono: "x \<le> y \<Longrightarrow> py_round1 x \<le> py_round1 y"
  using round_half_even_mono [of "x * 10" "y * 10"]
  by (simp add: py_round1_def divide_le_cancel)

lemma py_round1_lower: "of_int n / 10 \<le> x \<Longrightarrow> of_int n / 10 \<le> py_round1 x"
  using round_half_even_lower [of n "x * 10"]
  by (simp add: py_round1_def divide_le_cancel field_simps)

lemma py_round1_upper: "x \<le> of_int n / 10 \<Longrightarrow> py_round1 x \<le> of_int n / 10"
  using round_half_even_upper [of "x * 10" n]
  by (simp add: py_round1_def divide_le_cancel field_simps)

lemma py_round1_tenth: "py_round1 x = of_int (round_half_even (x * 10)) / 10"
  by (simp add: py_round1_def)

subsection \<open>The maximum scan\<close>

lemma py_max_mem: "py_max key best xs \<in> set (best # xs)"
  by (induction xs arbitrary: best) (auto split: if_splits)




subsection \<open>The factors, and the two copies of the formula\<close>

lemma sum_list_bounds:
  "\<forall>x \<in> set xs. a \<le> f x \<and> f x \<le> b \<Longrightarrow>
   a * of_nat (length xs) \<le> sum_list (map f xs) \<and> sum_list (map f xs) \<le> (b::rat) * of_nat (length xs)"
  by (induction xs) (auto simp: algebra_simps)

lemma get_rating_Some: "rating r = Some x \<Longrightarrow> get_rating r = x"
  by (simp add: get_rating_def)

lemma avg_review_bounds:
  assumes "reviews v \<noteq> []" and "\<forall>r \<in> set (reviews v). a \<le> get_rating r \<and> get_rating r \<le> b"
  shows "a \<le> avg_review v \<and> avg_review v \<le> b"
proof -
  let ?n = "of_nat (length (reviews v)) :: rat"
  have n: "0 < ?n" using assms(1) by simp
  from sum_list_bounds [OF assms(2)]
  have "a * ?n \<le> sum_list (map get_rating (reviews v))"
    and "sum_list (map get_rating (reviews v)) \<le> b * ?n" by simp_all
  then have "a \<le> sum_list (map get_rating (reviews v)) / ?n"
    and "sum_list (map get_rating (reviews v)) / ?n \<le> b"
    using n by (simp_all add: pos_le_divide_eq pos_divide_le_eq)
  then show ?thesis using assms(1) by (simp add: avg_review_def)
qed

lemma review_factor_range: "avg_review v \<le> 5 \<Longrightarrow> 0 \<le> review_factor v \<and> review_factor v \<le> 2 / 10"
  by (simp add: review_factor_def)

lemma key_review_factor_avg:
  "key_review_factor v = (if reviews v \<noteq> [] then (5 - avg_review v) / 5 * (2 / 10) else 1 / 10)"
  by (simp add: key_review_factor_def avg_review_def)

lemma avg_review_empty: "reviews v = [] \<Longrightarrow> avg_review v = 0"
  by (simp add: avg_review_def)

lemma key_review_factor_eq:
  "reviews v = [] \<or> 0 < avg_review v \<Longrightarrow> key_review_factor v = review_factor v"
  by (auto simp: key_review_factor_avg review_factor_def avg_review_empty)

lemma best_key_factors:
  "best_key v = 10 - (price_factor v + delivery_factor v + key_review_factor v)"
  by (simp add: best_key_def price_factor_def delivery_factor_def)

lemma best_key_raw:
  "reviews v = [] \<or> 0 < avg_review v \<Longrightarrow> best_key v = 9 + overall_score_raw v / 10"
  by (simp add: best_key_factors overall_score_raw_def key_review_factor_eq)

lemma best_key_order:
  assumes "reviews v = [] \<or> 0 < avg_review v" and "reviews w = [] \<or> 0 < avg_review w"
  shows "best_key v < best_key w \<longleftrightarrow> overall_score_raw v < overall_score_raw w"
  using assms by (simp add: best_key_raw)

subsection \<open>Monotonicity of the row score\<close>

text \<open>
  A dearer or slower vendor never scores higher, and among review lists with a positive
  average a better average never scores lower.
\<close>

lemma avg_review_price [simp]: "avg_review (v\<lparr>price_rating := p\<rparr>) = avg_review v"
  by (simp add: avg_review_def)

lemma avg_review_delivery [simp]: "avg_review (v\<lparr>delivery_time := d\<rparr>) = avg_review v"
  by (simp add: avg_review_def)

lemma score_price_antimono:
  "price_rating v \<le> p \<Longrightarrow> overall_score (v\<lparr>price_rating := p\<rparr>) \<le> overall_score v"
  unfolding overall_score_def
  by (rule py_round1_mono)
    (simp add: overall_score_raw_def price_factor_def delivery_factor_def review_factor_def)

lemma score_delivery_antimono:
  "delivery_time v \<le> d \<Longrightarrow> overall_score (v\<lparr>delivery_time := d\<rparr>) \<le> overall_score v"
  unfolding overall_score_def
  by (rule py_round1_mono)
    (simp add: overall_score_raw_def price_factor_def delivery_factor_def review_factor_def min_def)

lemma score_review_mono:
  assumes "0 < avg_review (v\<lparr>reviews := rs\<rparr>)"
    and "avg_review (v\<lparr>reviews := rs\<rparr>) \<le> avg_review (v\<lparr>reviews := rs'\<rparr>)"
  shows "overall_score (v\<lparr>reviews := rs\<rparr>) \<le> overall_score (v\<lparr>reviews := rs'\<rparr>)"
  unfolding overall_score_def
  using assms
  by (intro py_round1_mono)
    (simp add: overall_score_raw_def price_factor_def delivery_factor_def review_factor_def)


subsection \<open>The first loop and the vendors file\<close>

lemma get_vendor_console [simp]: "get_vendor (console_print e s) vid = get_vendor s vid"
  by (simp add: get_vendor_def load_data_def console_print_def)

lemma vendors_file_console [simp]: "vendors_file (console_print e s) = vendors_file s"
  by (simp add: console_print_def)

lemma console_console_print [simp]: "console (console_print e s) = console s @ [e]"
  by (simp add: console_print_def)

lemma get_vendor_console_fun: "get_vendor (console_print e s) = get_vendor s"
  by (rule ext) simp

lemma resolve_file: "vendors_file (snd (resolve ids acc s)) = vendors_file s"
  by (induction ids arbitrary: acc s) (auto split: option.splits)


text \<open>The loop collects the vendors it finds, in the order of the identifiers.\<close>

lemma resolve_vendors:
  "fst (resolve ids acc s) = acc @ List.map_filter (get_vendor s) ids"
  by (induction ids arbitrary: acc s)
    (auto simp: List.map_filter_simps get_vendor_console_fun split: option.splits)

section \<open>The claims\<close>

text \<open>
  C5. The three scenarios: Acme Supplies (price rating 6.5, delivery time 3.5, no reviews)
  scores 5.9; MegaCorp (4.2, 5.0, no reviews) scores 6.7 and is the vendor recommended when the
  two are compared in this order; Acme with two reviews of rating 5 scores 6.9, strictly more
  than without them.
\<close>

theorem scenarios:
  "overall_score acme = 59 / 10 \<and>
   overall_score megacorp = 67 / 10 \<and>
   map_sum id recommended (compare [acme, megacorp]) = Inr megacorp \<and>
   overall_score acme_reviewed = 69 / 10 \<and>
   overall_score acme < overall_score acme_reviewed"
  by code_simp

text \<open>
  C1, as the spec states it, fails: the penalty 0.1 of a vendor without reviews is not
  strictly worse than the factor of a vendor whose reviews average 2.5. The two are equal.
\<close>

theorem review_factor_neutral_counterexample:
  "\<not> review_factor (acme\<lparr>reviews := [two_stars, three_stars]\<rparr>) < review_factor acme \<and>
   avg_review (acme\<lparr>reviews := [two_stars, three_stars]\<rparr>) = 5 / 2 \<and>
   reviews acme = []"
  by code_simp

text \<open>
  C1, amended. For a vendor whose reviews are not empty and average to a positive rating,
  the average is the sum of the ratings (a missing rating counting 0) divided by the number
  of reviews, and the review factor of the row score is \<open>(5 - average) / 5 * 0.2\<close>; for a
  vendor without reviews the factor is exactly 0.1. The penalty 0.1 is the factor of an
  average of exactly 2.5, strictly better than the factor of every positive average below
  2.5 and strictly worse than the factor of every average above 2.5.
\<close>

theorem review_factor_cases:
  "(reviews v \<noteq> [] \<and> 0 < avg_review v \<longrightarrow>
      avg_review v = sum_list (map get_rating (reviews v)) / of_nat (length (reviews v)) \<and>
      review_factor v = (5 - avg_review v) / 5 * (2 / 10)) \<and>
   (reviews v = [] \<longrightarrow> review_factor v = 1 / 10) \<and>
   (avg_review v = 5 / 2 \<longrightarrow> review_factor v = 1 / 10) \<and>
   (0 < avg_review v \<and> avg_review v < 5 / 2 \<longrightarrow> 1 / 10 < review_factor v) \<and>
   (5 / 2 < avg_review v \<longrightarrow> review_factor v < 1 / 10)"
  by (simp add: review_factor_def avg_review_def)

theorem review_factor_cases_witness:
  "reviews acme_reviewed \<noteq> [] \<and> 0 < avg_review acme_reviewed \<and>
   review_factor acme_reviewed = 0 \<and>
   reviews acme = [] \<and> review_factor acme = 1 / 10 \<and>
   avg_review (acme\<lparr>reviews := [two_stars, three_stars]\<rparr>) = 5 / 2 \<and>
   review_factor (acme\<lparr>reviews := [two_stars, three_stars]\<rparr>) = 1 / 10 \<and>
   avg_review (acme\<lparr>reviews := [one_star]\<rparr>) < 5 / 2 \<and>
   1 / 10 < review_factor (acme\<lparr>reviews := [one_star]\<rparr>) \<and>
   5 / 2 < avg_review acme_reviewed \<and> review_factor acme_reviewed < 1 / 10"
proof -
  have a: "reviews acme_reviewed \<noteq> [] \<and> 0 < avg_review acme_reviewed \<and>
      5 / 2 < avg_review acme_reviewed \<and> avg_review acme_reviewed = 5"
    by code_simp
  have b: "reviews acme = []" by code_simp
  have c: "avg_review (acme\<lparr>reviews := [two_stars, three_stars]\<rparr>) = 5 / 2" by code_simp
  have d: "0 < avg_review (acme\<lparr>reviews := [one_star]\<rparr>) \<and>
      avg_review (acme\<lparr>reviews := [one_star]\<rparr>) < 5 / 2"
    by code_simp
  show ?thesis
    using a b c d review_factor_cases [of acme_reviewed] review_factor_cases [of acme]
      review_factor_cases [of "acme\<lparr>reviews := [two_stars, three_stars]\<rparr>"]
      review_factor_cases [of "acme\<lparr>reviews := [one_star]\<rparr>"]
    by simp
qed




text \<open>
  C3 fails on the code. Before rounding, the row of Acme Supplies holds \<open>89 / 15\<close> (5.93..)
  and the key of the same vendor is \<open>1439 / 150\<close> (9.59..): the key leaves out the factor 10.
  The two copies also order vendors differently: with one review that has no rating, Acme
  keeps the row score 5.9 and stands above Dearer Supplies (5.7) in the table, while the key
  ranks Dearer higher, and Dearer is recommended.
\<close>

theorem duplicated_formula_disagrees:
  "overall_score_raw acme = 89 / 15 \<and> best_key acme = 1439 / 150 \<and>
   overall_score_raw dearer < overall_score_raw (acme\<lparr>reviews := [unrated]\<rparr>) \<and>
   best_key (acme\<lparr>reviews := [unrated]\<rparr>) < best_key dearer \<and>
   overall_score (acme\<lparr>reviews := [unrated]\<rparr>) = 59 / 10 \<and>
   overall_score dearer = 57 / 10 \<and>
   map_sum id recommended (compare [acme\<lparr>reviews := [unrated]\<rparr>, dearer]) = Inr dearer"
  by code_simp

text \<open>
  C4 fails on the code in its third part. Two vendors that differ in their reviews only:
  the one whose single review has no rating averages 0 and scores 5.9, the one whose single
  review is rated 1 averages 1 and scores 5.3. The key of the recommendation orders the
  same two vendors the other way round. The first two parts hold (\<open>score_price_antimono\<close>,
  \<open>score_delivery_antimono\<close>), and so does the third between positive averages
  (\<open>score_review_mono\<close>).
\<close>

theorem better_reviews_lower_score:
  "avg_review (acme\<lparr>reviews := [unrated]\<rparr>) = 0 \<and>
   avg_review (acme\<lparr>reviews := [one_star]\<rparr>) = 1 \<and>
   overall_score (acme\<lparr>reviews := [unrated]\<rparr>) = 59 / 10 \<and>
   overall_score (acme\<lparr>reviews := [one_star]\<rparr>) = 53 / 10 \<and>
   best_key (acme\<lparr>reviews := [unrated]\<rparr>) < best_key (acme\<lparr>reviews := [one_star]\<rparr>)"
  by code_simp

text \<open>
  C6. For a vendor with price rating between 1 and 10, delivery time at least 0 and every
  review rated between 1 and 5, the score lies between 0 and 10 and is a whole number of
  tenths.
\<close>

theorem score_in_range:
  assumes "1 \<le> price_rating v" and "price_rating v \<le> 10" and "0 \<le> delivery_time v"
    and "\<forall>r \<in> set (reviews v). \<exists>x. rating r = Some x \<and> 1 \<le> x \<and> x \<le> 5"
  shows "0 \<le> overall_score v \<and> overall_score v \<le> 10 \<and>
         (\<exists>k::int. overall_score v = of_int k / 10)"
proof -
  have rs: "\<forall>r \<in> set (reviews v). 1 \<le> get_rating r \<and> get_rating r \<le> 5"
    using assms(4) by (auto simp: get_rating_def)
  have avg: "avg_review v \<le> 5"
  proof (cases "reviews v = []")
    case True
    then show ?thesis by (simp add: avg_review_def)
  next
    case False
    then show ?thesis using avg_review_bounds [OF False rs] by simp
  qed
  from review_factor_range [OF avg]
  have rf: "0 \<le> review_factor v" "review_factor v \<le> 2 / 10" by simp_all
  have pf: "0 \<le> price_factor v" "price_factor v \<le> 4 / 10"
    using assms(1,2) by (simp_all add: price_factor_def)
  have df: "0 \<le> delivery_factor v" "delivery_factor v \<le> 4 / 10"
    using assms(3) by (simp_all add: delivery_factor_def min_def)
  have lo: "of_int 0 / 10 \<le> overall_score_raw v"
    using rf pf df by (simp add: overall_score_raw_def)
  have hi: "overall_score_raw v \<le> of_int 100 / 10"
    using rf pf df by (simp add: overall_score_raw_def)
  have "0 \<le> overall_score v"
    using py_round1_lower [OF lo] by (simp add: overall_score_def)
  moreover have "overall_score v \<le> 10"
    using py_round1_upper [OF hi] by (simp add: overall_score_def)
  moreover have "\<exists>k::int. overall_score v = of_int k / 10"
    unfolding overall_score_def py_round1_def by blast
  ultimately show ?thesis by blast
qed

theorem score_in_range_witness:
  "1 \<le> price_rating acme_reviewed \<and> price_rating acme_reviewed \<le> 10 \<and>
   0 \<le> delivery_time acme_reviewed \<and>
   rating five_stars = Some 5 \<and> reviews acme_reviewed = [five_stars, five_stars] \<and>
   0 \<le> overall_score acme_reviewed \<and> overall_score acme_reviewed \<le> 10 \<and>
   overall_score acme_reviewed = of_int 69 / 10"
proof -
  have a: "1 \<le> price_rating acme_reviewed" "price_rating acme_reviewed \<le> 10"
    "0 \<le> delivery_time acme_reviewed" by code_simp+
  have r: "rating five_stars = Some 5" "reviews acme_reviewed = [five_stars, five_stars]"
    by code_simp+
  have d: "\<forall>r \<in> set (reviews acme_reviewed). \<exists>x. rating r = Some x \<and> 1 \<le> x \<and> x \<le> 5"
    using r by simp
  have e: "overall_score acme_reviewed = of_int 69 / 10" by code_simp
  from score_in_range [OF a d] a r e show ?thesis by simp
qed

text \<open>
  C8. Two vendors that differ in their delivery times only, both at least 30 days, have the
  same delivery factor, the same score and the same selection key.
\<close>

theorem delivery_clamp:
  assumes "30 \<le> delivery_time v" and "30 \<le> d"
  shows "delivery_factor (v\<lparr>delivery_time := d\<rparr>) = delivery_factor v \<and>
         overall_score (v\<lparr>delivery_time := d\<rparr>) = overall_score v \<and>
         best_key (v\<lparr>delivery_time := d\<rparr>) = best_key v"
  using assms
  by (simp add: delivery_factor_def overall_score_def overall_score_raw_def price_factor_def
      review_factor_def best_key_def key_review_factor_def min_def)

theorem delivery_clamp_witness:
  "30 \<le> delivery_time (acme\<lparr>delivery_time := 40\<rparr>) \<and> (30::rat) \<le> 90 \<and>
   overall_score (acme\<lparr>delivery_time := 40\<rparr>) = 24 / 10 \<and>
   overall_score (acme\<lparr>delivery_time := 90\<rparr>) = 24 / 10"
proof -
  have a: "30 \<le> delivery_time (acme\<lparr>delivery_time := 40\<rparr>)" by code_simp
  have b: "(30::rat) \<le> 90" by simp
  have c: "overall_score (acme\<lparr>delivery_time := 40\<rparr>) = 24 / 10" by code_simp
  from delivery_clamp [OF a b] a b c show ?thesis by simp
qed






text \<open>
  C10. The function reads vendors and never writes one: after \<open>compare_vendors\<close>, for any
  identifiers and any state, the vendors file holds the records it held before, and every
  identifier resolves to the same vendor, with the same price rating, delivery time and
  reviews.
\<close>

theorem compare_vendors_frame:
  "vendors_file (compare_vendors ids s) = vendors_file s \<and>
   (\<forall>vid. get_vendor (compare_vendors ids s) vid = get_vendor s vid)"
proof -
  obtain vs s1 where r: "resolve ids [] s = (vs, s1)" by (cases "resolve ids [] s")
  from resolve_file [of ids "[]" s] r have f1: "vendors_file s1 = vendors_file s" by simp
  have "vendors_file (compare_vendors ids s) = vendors_file s"
    by (simp add: compare_vendors_def r f1 split: sum.splits)
  then show ?thesis by (simp add: get_vendor_def load_data_def)
qed

end
